theory Spec2Isabelle
  imports Complex_Main "HOL-Library.Word"
begin

section \<open>SquareWithWell-Transient.py: a square aquifer with a pumping well\<close>

text \<open>
  The script is one module of straight-line Python: it defines the grid and the
  time discretisation, hands them to flopy's package constructors, writes the MODFLOW
  input, runs the solver, checks its success flag and plots the heads.

  Modelling choices.
  \<^item> Python \<open>int\<close> is \<open>int\<close>.
  \<^item> Python \<open>float\<close> and numpy \<open>float32\<close> values are \<open>rat\<close>. Every float the
    script computes before the solver runs (1000, 100, 10, 20, 5, 995, ...) is a small
    integer, so IEEE arithmetic returns the exact quotient, sum and product there.
  \<^item> numpy \<open>int32\<close> is \<open>32 word\<close>, read as a signed number with \<open>sint\<close>.
  \<^item> An exception is a value \<open>Inl e\<close> of \<open>py_error + 'a\<close>.
\<close>

subsection \<open>Exceptions\<close>

datatype py_error =
    ZeroDivisionError
  | ValueError
  | IndexError
  | KeyError
  | NameError string
  | Exception string

fun bind_res :: "'e + 'a \<Rightarrow> ('a \<Rightarrow> 'e + 'b) \<Rightarrow> 'e + 'b" where
  "bind_res (Inl e) f = Inl e"
| "bind_res (Inr x) f = f x"

fun map_res :: "('a \<Rightarrow> 'e + 'b) \<Rightarrow> 'a list \<Rightarrow> 'e + 'b list" where
  "map_res f [] = Inr []"
| "map_res f (x # xs) =
     bind_res (f x) (\<lambda>y. bind_res (map_res f xs) (\<lambda>ys. Inr (y # ys)))"

subsection \<open>Python and numpy operations the script calls\<close>

text \<open>\<open>a / b\<close> on numbers: true division, \<open>ZeroDivisionError\<close> on a zero divisor.\<close>

definition py_truediv :: "rat \<Rightarrow> rat \<Rightarrow> py_error + rat" where
  "py_truediv a b = (if b = 0 then Inl ZeroDivisionError else Inr (a / b))"

text \<open>\<open>round(x)\<close> with one argument: the nearest integer, a tie going to the even one.\<close>

definition py_round :: "rat \<Rightarrow> int" where
  "py_round x =
     (let f = \<lfloor>x\<rfloor>; d = x - of_int f
      in if d < 1 / 2 then f
         else if 1 / 2 < d then f + 1
         else if even f then f else f + 1)"

text \<open>
  \<open>np.linspace(start, stop, num)\<close>: \<open>num\<close> evenly spaced samples with both ends
  included. A negative \<open>num\<close> is a \<open>ValueError\<close>; the step is
  \<open>(stop - start) / (num - 1)\<close> when \<open>num > 1\<close>, and the last sample is then
  overwritten with \<open>stop\<close>.
\<close>

definition np_linspace :: "rat \<Rightarrow> rat \<Rightarrow> int \<Rightarrow> py_error + rat list" where
  "np_linspace start stop num =
     (if num < 0 then Inl ValueError
      else let n = nat num;
               step = (if 1 < n then (stop - start) / of_nat (n - 1) else stop - start);
               y = map (\<lambda>i. of_nat i * step + start) [0..<n]
           in Inr (if 1 < n then y[n - 1 := stop] else y))"

text \<open>
  A three-dimensional \<open>ndarray\<close>: its shape and its cells, layer by layer and row by
  row. numpy keeps the shape beside the data, so an array with an empty axis still
  knows the length of the others.
\<close>

record 'a ndarray3 =
  shape :: "nat \<times> nat \<times> nat"
  cells :: "'a list list list"

definition well_shaped :: "'a ndarray3 \<Rightarrow> bool" where
  "well_shaped a =
     (case shape a of (l, r, c) \<Rightarrow>
        length (cells a) = l \<and>
        list_all (\<lambda>p. length p = r \<and> list_all (\<lambda>row. length row = c) p) (cells a))"

text \<open>\<open>np.ones(shape, dtype)\<close>: a negative dimension is a \<open>ValueError\<close>.\<close>

definition np_ones :: "int \<times> int \<times> int \<Rightarrow> py_error + ('a::one) ndarray3" where
  "np_ones shp =
     (case shp of (l, r, c) \<Rightarrow>
        if l < 0 \<or> r < 0 \<or> c < 0 then Inl ValueError
        else Inr \<lparr>shape = (nat l, nat r, nat c),
                  cells = replicate (nat l) (replicate (nat r) (replicate (nat c) 1))\<rparr>)"

text \<open>
  An index \<open>i\<close> into an axis of length \<open>n\<close>: \<open>0 \<le> i < n\<close> counts from the front,
  \<open>-n \<le> i < 0\<close> from the back, anything else is an \<open>IndexError\<close>.
\<close>

definition norm_index :: "nat \<Rightarrow> int \<Rightarrow> py_error + nat" where
  "norm_index n i =
     (if 0 \<le> i \<and> i < int n then Inr (nat i)
      else if - int n \<le> i \<and> i < 0 then Inr (nat (int n + i))
      else Inl IndexError)"

text \<open>
  \<open>a[:, :, idx] = v\<close> with a tuple \<open>idx\<close> of integers: every index is checked
  against the last axis, then \<open>v\<close> is stored at those columns of every row of every
  layer.
\<close>

definition setitem_last_axis :: "int list \<Rightarrow> 'a \<Rightarrow> 'a ndarray3 \<Rightarrow> py_error + 'a ndarray3" where
  "setitem_last_axis idx v a =
     (case shape a of (l, r, c) \<Rightarrow>
        bind_res (map_res (norm_index c) idx)
          (\<lambda>js. Inr (a\<lparr>cells := map (map (\<lambda>row. fold (\<lambda>j xs. xs[j := v]) js row)) (cells a)\<rparr>)))"

text \<open>\<open>a[i, j, k]\<close>: each index is checked against its axis.\<close>

definition getitem3 :: "'a ndarray3 \<Rightarrow> int \<times> int \<times> int \<Rightarrow> py_error + 'a" where
  "getitem3 a ix =
     (case (shape a, ix) of ((l, r, c), (i, j, k)) \<Rightarrow>
        bind_res (norm_index l i) (\<lambda>i'.
        bind_res (norm_index r j) (\<lambda>j'.
        bind_res (norm_index c k) (\<lambda>k'. Inr (cells a ! i' ! j' ! k')))))"

text \<open>\<open>s * a\<close> for a scalar \<open>s\<close>: every cell is multiplied.\<close>

definition scalar_mul :: "rat \<Rightarrow> rat ndarray3 \<Rightarrow> rat ndarray3" where
  "scalar_mul s a = a\<lparr>cells := map (map (map (\<lambda>x. s * x))) (cells a)\<rparr>"

text \<open>
  Storing a float into an \<open>int32\<close> array converts it: the fraction is dropped
  (towards zero) and the integer is taken to 32 bits.
\<close>

definition float_to_int32 :: "rat \<Rightarrow> 32 word" where
  "float_to_int32 x = word_of_int (if 0 \<le> x then \<lfloor>x\<rfloor> else \<lceil>x\<rceil>)"

subsection \<open>Model domain and grid definition (lines 24 to 41)\<close>

definition Lx :: rat where "Lx = 1000"
definition Ly :: rat where "Ly = 1000"
definition ztop :: rat where "ztop = 100"
definition zbot :: rat where "zbot = 0"
definition nlay :: int where "nlay = 1"
definition nrow :: int where "nrow = 50"
definition ncol :: int where "ncol = 100"

definition delr :: "py_error + rat" where
  "delr = py_truediv Lx (of_int ncol)"

definition delc :: "py_error + rat" where
  "delc = py_truediv Ly (of_int nrow)"

definition delv :: "py_error + rat" where
  "delv = py_truediv (ztop - zbot) (of_int nlay)"

text \<open>The divisor \<open>2\<close> of \<open>delr/2\<close> and \<open>delc/2\<close> is a literal: no error branch.\<close>

definition x_coord :: "py_error + rat list" where
  "x_coord = bind_res delr (\<lambda>dr. np_linspace (dr / 2) (Lx - dr / 2) ncol)"

definition y_coord :: "py_error + rat list" where
  "y_coord = bind_res delc (\<lambda>dc. np_linspace (Ly - dc / 2) (dc / 2) nrow)"

definition botm :: "py_error + rat list" where
  "botm = np_linspace ztop zbot (nlay + 1)"

definition hk :: rat where "hk = 1"
definition vka :: rat where "vka = 1"
definition sy :: rat where "sy = 1 / 10"
definition ss :: rat where "ss = 1 / 10000"
definition laytyp :: int where "laytyp = 1"

subsection \<open>Boundary and initial conditions (lines 45 to 49)\<close>

definition ibound :: "py_error + 32 word ndarray3" where
  "ibound =
     bind_res (np_ones (nlay, nrow, ncol))
       (setitem_last_axis [0, ncol - 1] (float_to_int32 (- 1)))"

definition strt :: "py_error + rat ndarray3" where
  "strt = bind_res (np_ones (nlay, nrow, ncol)) (\<lambda>a. Inr (scalar_mul 100 a))"

subsection \<open>Time step parameters (lines 52 to 55)\<close>

definition nper :: int where "nper = 2"
definition perlen :: "int list" where "perlen = [100, 100]"
definition nstp :: "int list" where "nstp = [100, 100]"
definition steady :: "bool list" where "steady = [False, False]"

subsection \<open>The pumping well (lines 66 to 71)\<close>

text \<open>\<open>nrow/2\<close> and \<open>ncol/2\<close> are true divisions by the literal \<open>2\<close>.\<close>

definition r_well :: int where "r_well = py_round (of_int nrow / 2)"
definition c_well :: int where "c_well = py_round (of_int ncol / 2)"

definition wel_sp1 :: "int list list" where
  "wel_sp1 = [[0, r_well, c_well, - 1000]]"

definition wel_sp2 :: "int list list" where
  "wel_sp2 = [[0, r_well, c_well, 0]]"

text \<open>
  The dictionary literal \<open>{0: wel_sp1, 1: wel_sp2}\<close>: a later entry of a literal
  replaces an earlier one with the same key, as a map update does.
\<close>

definition stress_period_data :: "int \<rightharpoonup> int list list" where
  "stress_period_data = [0 \<mapsto> wel_sp1, 1 \<mapsto> wel_sp2]"

subsection \<open>Reading the arrays\<close>

text \<open>\<open>ibound[i, j, k]\<close> and \<open>strt[i, j, k]\<close>, as the script would evaluate them.\<close>

definition ibound_at :: "int \<times> int \<times> int \<Rightarrow> py_error + 32 word" where
  "ibound_at ix = bind_res ibound (\<lambda>a. getitem3 a ix)"

definition strt_at :: "int \<times> int \<times> int \<Rightarrow> py_error + rat" where
  "strt_at ix = bind_res strt (\<lambda>a. getitem3 a ix)"

text \<open>
  The floats are modelled by rationals. That is exact for a value that is an integer
  of magnitude at most \<open>2 ^ 53\<close>: every such integer is a binary64 number, and an
  IEEE operation whose true result is a binary64 number returns that number.
\<close>

definition float_exact :: "rat \<Rightarrow> bool" where
  "float_exact q = (q = of_int \<lfloor>q\<rfloor> \<and> \<bar>q\<bar> \<le> 2 ^ 53)"

section \<open>The control flow of the script\<close>

text \<open>
  The module is a list of statements, one per logical line, run from top to bottom.
  A statement is recorded with its line, what it does, the names it binds and the names
  it reads (builtins such as \<open>round\<close> and \<open>float\<close> are always bound and are left
  out). The kinds:
  \<^item> \<open>Import\<close>: an \<open>import\<close>;
  \<^item> \<open>Define\<close>: an assignment (or an in-place update) computed by Python and numpy;
  \<^item> \<open>Construct\<close>: a call of a flopy constructor (the model or one of its packages);
  \<^item> \<open>WriteInput\<close>: \<open>mf.write_input()\<close>;
  \<^item> \<open>RunModel\<close>: \<open>mf.run_model(...)\<close>, the call of the external solver;
  \<^item> \<open>Check\<close>: the conditional on \<open>success\<close>;
  \<^item> \<open>ReadHeads\<close>: opening the binary head file or reading from it;
  \<^item> \<open>Plot\<close>: a matplotlib call.
  The one compound statement, \<open>if not success: raise Exception(...)\<close> at lines 82
  and 83, has a constructor of its own.
\<close>

datatype kind = Import | Define | Construct | WriteInput | RunModel | Check | ReadHeads | Plot

datatype stmt =
    Stmt nat kind "string list" "string list"
  | IfNotSuccessRaise nat py_error

fun line_of :: "stmt \<Rightarrow> nat" where
  "line_of (Stmt n k ds us) = n"
| "line_of (IfNotSuccessRaise n e) = n"

fun kind_of :: "stmt \<Rightarrow> kind" where
  "kind_of (Stmt n k ds us) = k"
| "kind_of (IfNotSuccessRaise n e) = Check"

fun defs_of :: "stmt \<Rightarrow> string list" where
  "defs_of (Stmt n k ds us) = ds"
| "defs_of (IfNotSuccessRaise n e) = []"

fun is_branch :: "stmt \<Rightarrow> bool" where
  "is_branch (Stmt n k ds us) = False"
| "is_branch (IfNotSuccessRaise n e) = True"

definition script :: "stmt list" where
  "script =
   [Stmt 12 Import [''np''] [],
    Stmt 13 Import [''flopy''] [],
    Stmt 14 Import [''itertools''] [],
    Stmt 17 Define [''path2mf''] [],
    Stmt 20 Define [''modelname''] [],
    Stmt 21 Construct [''mf''] [''flopy'', ''modelname'', ''path2mf''],
    Stmt 24 Define [''Lx''] [],
    Stmt 25 Define [''Ly''] [],
    Stmt 26 Define [''ztop''] [],
    Stmt 27 Define [''zbot''] [],
    Stmt 28 Define [''nlay''] [],
    Stmt 29 Define [''nrow''] [],
    Stmt 30 Define [''ncol''] [],
    Stmt 31 Define [''delr''] [''Lx'', ''ncol''],
    Stmt 32 Define [''delc''] [''Ly'', ''nrow''],
    Stmt 33 Define [''delv''] [''ztop'', ''zbot'', ''nlay''],
    Stmt 34 Define [''x_coord''] [''np'', ''delr'', ''Lx'', ''ncol''],
    Stmt 35 Define [''y_coord''] [''np'', ''Ly'', ''delc'', ''nrow''],
    Stmt 36 Define [''botm''] [''np'', ''ztop'', ''zbot'', ''nlay''],
    Stmt 37 Define [''hk''] [],
    Stmt 38 Define [''vka''] [],
    Stmt 39 Define [''sy''] [],
    Stmt 40 Define [''ss''] [],
    Stmt 41 Define [''laytyp''] [],
    Stmt 45 Define [''ibound''] [''np'', ''nlay'', ''nrow'', ''ncol''],
    Stmt 46 Define [] [''ibound'', ''ncol''],
    Stmt 49 Define [''strt''] [''np'', ''nlay'', ''nrow'', ''ncol''],
    Stmt 52 Define [''nper''] [],
    Stmt 53 Define [''perlen''] [],
    Stmt 54 Define [''nstp''] [],
    Stmt 55 Define [''steady''] [],
    Stmt 58 Construct [''dis'']
      [''flopy'', ''mf'', ''nlay'', ''nrow'', ''ncol'', ''delr'', ''delc'', ''ztop'', ''botm'',
       ''nper'', ''perlen'', ''nstp'', ''steady''],
    Stmt 61 Construct [''bas''] [''flopy'', ''mf'', ''ibound'', ''strt''],
    Stmt 62 Construct [''lpf''] [''flopy'', ''mf'', ''hk'', ''vka'', ''sy'', ''ss'', ''laytyp''],
    Stmt 63 Construct [''pcg''] [''flopy'', ''mf''],
    Stmt 66 Define [''r_well''] [''nrow''],
    Stmt 67 Define [''c_well''] [''ncol''],
    Stmt 68 Define [''wel_sp1''] [''r_well'', ''c_well''],
    Stmt 69 Define [''wel_sp2''] [''r_well'', ''c_well''],
    Stmt 70 Define [''stress_period_data''] [''wel_sp1'', ''wel_sp2''],
    Stmt 72 Construct [''wel''] [''flopy'', ''mf'', ''stress_period_data''],
    Stmt 75 Construct [''oc''] [''flopy'', ''mf''],
    Stmt 78 WriteInput [] [''mf''],
    Stmt 81 RunModel [''success'', ''mfoutput''] [''mf''],
    IfNotSuccessRaise 82 (Exception ''MODFLOW did not terminate normally.''),
    Stmt 86 Import [''plt''] [],
    Stmt 87 Import [''bf''] [],
    Stmt 90 ReadHeads [''headobj''] [''bf'', ''modelname''],
    Stmt 93 ReadHeads [''time''] [''headobj''],
    Stmt 94 ReadHeads [''head''] [''headobj'', ''time''],
    Stmt 95 Define [''extent''] [''x_coord'', ''ncol'', ''y_coord'', ''nrow''],
    Stmt 98 Define [''wpt''] [''ncol'', ''delr'', ''nrow'', ''delc''],
    Stmt 101 Plot [] [''plt''],
    Stmt 102 Plot [] [''plt'', ''head'', ''extent''],
    Stmt 103 Plot [] [''plt''],
    Stmt 104 Plot [] [''plt'', ''wpt''],
    Stmt 111 Plot [] [''plt''],
    Stmt 112 Plot [] [''plt'', ''x_coord'', ''head'', ''r_well''],
    Stmt 113 Plot [] [''plt''],
    Stmt 116 Define [''idx''] [''r_well'', ''c_well''],
    Stmt 117 ReadHeads [''ts''] [''headobj'', ''idx''],
    Stmt 118 Plot [] [''plt''],
    Stmt 119 Define [''ttl''] [''idx''],
    Stmt 120 Plot [] [''plt'', ''ttl''],
    Stmt 121 Plot [] [''plt''],
    Stmt 122 Plot [] [''plt''],
    Stmt 123 Plot [] [''plt'', ''ts''],
    Stmt 124 Plot [] [''plt'']]"

text \<open>
  The interpreter's state: the names bound so far, the value of \<open>success\<close> once
  \<open>run_model\<close> has returned, the number of solver calls made, and the statements
  executed, in order.
\<close>

record run_state =
  names :: "string list"
  success :: "bool option"
  solver_calls :: nat
  trace :: "(nat \<times> kind) list"

definition init_state :: run_state where
  "init_state = \<lparr>names = [], success = None, solver_calls = 0, trace = []\<rparr>"

datatype outcome = Finished | Raised py_error

text \<open>
  One statement. The external solver is a parameter: \<open>solver n\<close> is the success flag
  that the call number \<open>n\<close> (counted from \<open>0\<close>) returns. Reading a name that is
  not bound raises \<open>NameError\<close>; the conditional raises its exception when
  \<open>success\<close> is false. flopy, numpy and matplotlib calls are taken to return; what
  they compute is in the first part of the theory.
\<close>

fun step :: "(nat \<Rightarrow> bool) \<Rightarrow> stmt \<Rightarrow> run_state \<Rightarrow> run_state \<times> py_error option" where
  "step solver (Stmt n k ds us) st =
     (case filter (\<lambda>x. x \<notin> set (names st)) us of
        x # _ \<Rightarrow> (st, Some (NameError x))
      | [] \<Rightarrow>
          (let st' = st\<lparr>names := names st @ ds, trace := trace st @ [(n, k)]\<rparr>
           in if k = RunModel
              then (st'\<lparr>success := Some (solver (solver_calls st)),
                        solver_calls := Suc (solver_calls st)\<rparr>, None)
              else (st', None)))"
| "step solver (IfNotSuccessRaise n e) st =
     (case success st of
        None \<Rightarrow> (st, Some (NameError ''success''))
      | Some ok \<Rightarrow>
          (st\<lparr>trace := trace st @ [(n, Check)]\<rparr>, if \<not> ok then Some e else None))"

text \<open>Statements run in order; an exception ends the run.\<close>

fun exec :: "(nat \<Rightarrow> bool) \<Rightarrow> stmt list \<Rightarrow> run_state \<Rightarrow> run_state \<times> outcome" where
  "exec solver [] st = (st, Finished)"
| "exec solver (s # rest) st =
     (case step solver s st of
        (st', Some e) \<Rightarrow> (st', Raised e)
      | (st', None) \<Rightarrow> exec solver rest st')"

definition run :: "(nat \<Rightarrow> bool) \<Rightarrow> run_state \<times> outcome" where
  "run solver = exec solver script init_state"

text \<open>The statements that call the solver.\<close>

definition is_run :: "stmt \<Rightarrow> bool" where
  "is_run s = (kind_of s = RunModel)"

text \<open>
  The statements a run gets through: all of them when the first solver call succeeds,
  the first 45 (up to the conditional at line 82) when it fails.
\<close>

definition executed :: "(nat \<Rightarrow> bool) \<Rightarrow> stmt list" where
  "executed solver = (if solver 0 then script else take 45 script)"

text \<open>
  The order as the specification words it: parameter definition, then construction,
  then writing the input and running the solver, then reading the heads, then plotting.
  Imports and the success check are not among its five steps and are skipped. A trace
  follows that order when the ranks of its steps never decrease, so that no step
  comes before an earlier one and no step resumes once a later one has begun.
\<close>

fun spec_step_rank :: "kind \<Rightarrow> nat option" where
  "spec_step_rank Define = Some 0"
| "spec_step_rank Construct = Some 1"
| "spec_step_rank WriteInput = Some 2"
| "spec_step_rank RunModel = Some 2"
| "spec_step_rank ReadHeads = Some 3"
| "spec_step_rank Plot = Some 4"
| "spec_step_rank Import = None"
| "spec_step_rank Check = None"

definition spec_five_step_order :: "(nat \<times> kind) list \<Rightarrow> bool" where
  "spec_five_step_order tr = sorted (List.map_filter (\<lambda>e. spec_step_rank (snd e)) tr)"

section \<open>Properties of the configuration\<close>

subsection \<open>Helper facts about the numpy operations\<close>

lemma fold_update_length: "length (fold (\<lambda>j xs. xs[j := v]) js row) = length row"
  by (induction js arbitrary: row) simp_all

lemma fold_update_nth:
  "k < length row \<Longrightarrow>
   fold (\<lambda>j xs. xs[j := v]) js row ! k = (if k \<in> set js then v else row ! k)"
proof (induction js arbitrary: row)
  case Nil
  then show ?case by simp
next
  case (Cons j js)
  have "k < length (row[j := v])" using Cons.prems by simp
  from Cons.IH [OF this] show ?case
    using Cons.prems by (auto simp: nth_list_update)
qed

lemma float_to_int32_minus_one: "float_to_int32 (- 1) = - 1"
proof -
  have "\<lceil>- 1 :: rat\<rceil> = - 1" using ceiling_of_int [of "- 1", where ?'a = rat] by simp
  then show ?thesis by (simp add: float_to_int32_def)
qed

lemma getitem3_in_range:
  assumes "shape a = (l, r, c)"
    and "0 \<le> i" "i < int l" "0 \<le> j" "j < int r" "0 \<le> k" "k < int c"
  shows "getitem3 a (i, j, k) = Inr (cells a ! nat i ! nat j ! nat k)"
  using assms by (simp add: getitem3_def norm_index_def)

subsection \<open>The values the script computes\<close>

lemma delr_value: "delr = Inr 10"
  by (simp add: delr_def py_truediv_def Lx_def ncol_def)

lemma delc_value: "delc = Inr 20"
  by (simp add: delc_def py_truediv_def Ly_def nrow_def)

lemma r_well_value: "r_well = 25"
  by (simp add: r_well_def py_round_def nrow_def Let_def)

lemma c_well_value: "c_well = 50"
  by (simp add: c_well_def py_round_def ncol_def Let_def)

lemma ibound_value:
  "ibound = Inr \<lparr>shape = (1, 50, 100),
      cells = replicate 1 (replicate 50
                (fold (\<lambda>j xs. xs[j := - 1]) [0, 99] (replicate 100 1)))\<rparr>"
  by (simp add: ibound_def np_ones_def setitem_last_axis_def norm_index_def
      float_to_int32_minus_one nlay_def nrow_def ncol_def)

lemma strt_value:
  "strt = Inr \<lparr>shape = (1, 50, 100),
      cells = replicate 1 (replicate 50 (replicate 100 100))\<rparr>"
  by (simp add: strt_def np_ones_def scalar_mul_def nlay_def nrow_def ncol_def)

lemma ibound_cell:
  assumes "0 \<le> i" "i < nlay" "0 \<le> j" "j < nrow" "0 \<le> k" "k < ncol"
  shows "ibound_at (i, j, k) = Inr (if k = 0 \<or> k = ncol - 1 then - 1 else 1)"
proof -
  define a :: "32 word ndarray3" where
    "a = \<lparr>shape = (1, 50, 100),
          cells = replicate 1 (replicate 50
                    (fold (\<lambda>j xs. xs[j := - 1]) [0, 99] (replicate 100 1)))\<rparr>"
  have sh: "shape a = (1, 50, 100)" by (simp add: a_def)
  have i: "nat i < 1" and j: "nat j < 50" and k: "nat k < 100"
    using assms by (simp_all add: nlay_def nrow_def ncol_def)
  have get: "getitem3 a (i, j, k) = Inr (cells a ! nat i ! nat j ! nat k)"
    using assms by (intro getitem3_in_range [OF sh]) (simp_all add: nlay_def nrow_def ncol_def)
  have row: "cells a ! nat i ! nat j = fold (\<lambda>j xs. xs[j := - 1]) [0, 99] (replicate 100 1)"
    unfolding a_def using i j by (simp del: fold_simps replicate.simps)
  have mem: "nat k \<in> set [0, 99] \<longleftrightarrow> k = 0 \<or> k = ncol - 1"
    using assms by (auto simp: ncol_def)
  have "fold (\<lambda>j xs. xs[j := - 1]) [0, 99] (replicate 100 (1::32 word)) ! nat k
        = (if nat k \<in> set [0, 99] then - 1 else 1)"
    using k by (subst fold_update_nth) simp_all
  then have "cells a ! nat i ! nat j ! nat k = (if k = 0 \<or> k = ncol - 1 then - 1 else 1)"
    unfolding row mem .
  then show ?thesis
    unfolding ibound_at_def ibound_value a_def [symmetric] by (simp add: get)
qed

lemma strt_cell:
  assumes "0 \<le> i" "i < nlay" "0 \<le> j" "j < nrow" "0 \<le> k" "k < ncol"
  shows "strt_at (i, j, k) = Inr 100"
proof -
  define a :: "rat ndarray3" where
    "a = \<lparr>shape = (1, 50, 100), cells = replicate 1 (replicate 50 (replicate 100 100))\<rparr>"
  have sh: "shape a = (1, 50, 100)" by (simp add: a_def)
  have i: "nat i < 1" and j: "nat j < 50" and k: "nat k < 100"
    using assms by (simp_all add: nlay_def nrow_def ncol_def)
  have get: "getitem3 a (i, j, k) = Inr (cells a ! nat i ! nat j ! nat k)"
    using assms by (intro getitem3_in_range [OF sh]) (simp_all add: nlay_def nrow_def ncol_def)
  have "cells a ! nat i ! nat j ! nat k = 100"
    unfolding a_def using i j k by (simp del: replicate.simps)
  then show ?thesis
    unfolding strt_at_def strt_value a_def [symmetric] by (simp add: get)
qed

lemma ibound_shape:
  "\<exists>a. ibound = Inr a \<and> shape a = (1, 50, 100) \<and> well_shaped a"
  by (simp add: ibound_value well_shaped_def list_all_length fold_update_length
      del: fold_simps)

lemma strt_shape:
  "\<exists>a. strt = Inr a \<and> shape a = (1, 50, 100) \<and> well_shaped a"
  by (simp add: strt_value well_shaped_def list_all_length)

lemma np_linspace_length:
  "0 \<le> num \<Longrightarrow> \<exists>y. np_linspace start stop num = Inr y \<and> int (length y) = num"
  by (simp add: np_linspace_def Let_def)

subsection \<open>The grid\<close>

text \<open>
  Claim C3. The cell sizes are the domain lengths divided by the cell counts:
  \<open>delr = Lx / ncol = 1000 / 100 = 10\<close> and \<open>delc = Ly / nrow = 1000 / 50 = 20\<close>. No
  division raises, and operands and quotients are integers that binary64 holds, so the
  floating-point quotients are these numbers exactly.
\<close>

theorem grid_cell_sizes:
  "delr = Inr (Lx / of_int ncol) \<and> Lx / of_int ncol = 10 \<and>
   delc = Inr (Ly / of_int nrow) \<and> Ly / of_int nrow = 20 \<and>
   float_exact Lx \<and> float_exact Ly \<and> float_exact (of_int ncol) \<and> float_exact (of_int nrow) \<and>
   float_exact (Lx / of_int ncol) \<and> float_exact (Ly / of_int nrow)"
  by (simp add: delr_def delc_def py_truediv_def Lx_def Ly_def ncol_def nrow_def float_exact_def)

text \<open>
  Claim C5. The arrays match the grid: \<open>ibound\<close> and \<open>strt\<close> have the shape
  \<open>(nlay, nrow, ncol) = (1, 50, 100)\<close> and their cells fill it, \<open>botm\<close> has
  \<open>nlay + 1\<close> entries, \<open>x_coord\<close> has \<open>ncol\<close> and \<open>y_coord\<close> has \<open>nrow\<close>.
\<close>

theorem array_shapes_match_grid:
  "(nat nlay, nat nrow, nat ncol) = (1, 50, 100) \<and>
   (\<exists>a. ibound = Inr a \<and> shape a = (nat nlay, nat nrow, nat ncol) \<and> well_shaped a) \<and>
   (\<exists>a. strt = Inr a \<and> shape a = (nat nlay, nat nrow, nat ncol) \<and> well_shaped a) \<and>
   (\<exists>b. botm = Inr b \<and> int (length b) = nlay + 1) \<and>
   (\<exists>x. x_coord = Inr x \<and> int (length x) = ncol) \<and>
   (\<exists>y. y_coord = Inr y \<and> int (length y) = nrow)"
proof -
  have dims: "(nat nlay, nat nrow, nat ncol) = (1, 50, 100)"
    by (simp add: nlay_def nrow_def ncol_def)
  have b: "\<exists>b. botm = Inr b \<and> int (length b) = nlay + 1"
    unfolding botm_def by (rule np_linspace_length) (simp add: nlay_def)
  have x: "\<exists>x. x_coord = Inr x \<and> int (length x) = ncol"
    unfolding x_coord_def delr_value bind_res.simps
    by (rule np_linspace_length) (simp add: ncol_def)
  have y: "\<exists>y. y_coord = Inr y \<and> int (length y) = nrow"
    unfolding y_coord_def delc_value bind_res.simps
    by (rule np_linspace_length) (simp add: nrow_def)
  show ?thesis
    unfolding dims using ibound_shape strt_shape b x y by simp
qed

subsection \<open>Boundary and initial conditions\<close>

text \<open>
  Claim C2. For every cell \<open>(i, j, k)\<close> of the grid, \<open>ibound[i, j, k]\<close> is \<open>-1\<close>
  (the constant-head marker) when \<open>k\<close> is the first or the last column, and \<open>1\<close> in
  every other column.
\<close>

theorem ibound_constant_head_columns:
  assumes "0 \<le> i" "i < nlay" "0 \<le> j" "j < nrow" "0 \<le> k" "k < ncol"
  shows "\<exists>w. ibound_at (i, j, k) = Inr w \<and>
             sint w = (if k = 0 \<or> k = ncol - 1 then - 1 else 1)"
  using ibound_cell [OF assms] by simp

text \<open>The first column, the last column and an inner column, in the first and the last row.\<close>

theorem ibound_constant_head_columns_witness:
  "(0::int) < nlay \<and> 49 < nrow \<and> 99 < ncol \<and>
   (\<exists>w. ibound_at (0, 0, 0) = Inr w \<and> sint w = - 1) \<and>
   (\<exists>w. ibound_at (0, 49, 99) = Inr w \<and> sint w = - 1) \<and>
   (\<exists>w. ibound_at (0, 49, 1) = Inr w \<and> sint w = 1)"
  using ibound_constant_head_columns [of 0 0 0]
    ibound_constant_head_columns [of 0 49 99]
    ibound_constant_head_columns [of 0 49 1]
  by (simp add: nlay_def nrow_def ncol_def)

text \<open>
  Claim C9. \<open>strt\<close> is \<open>100\<close> in every cell of the grid; in particular a cell of the
  first or last column, where \<open>ibound\<close> is \<open>-1\<close>, starts at the head \<open>100\<close>.
\<close>

theorem initial_head_uniform:
  assumes "0 \<le> i" "i < nlay" "0 \<le> j" "j < nrow" "0 \<le> k" "k < ncol"
  shows "strt_at (i, j, k) = Inr 100 \<and>
         (k = 0 \<or> k = ncol - 1 \<longrightarrow>
            (\<exists>w. ibound_at (i, j, k) = Inr w \<and> sint w = - 1) \<and> strt_at (i, j, k) = Inr 100)"
  using ibound_cell [OF assms] strt_cell [OF assms] by simp

text \<open>A boundary cell and an inner cell.\<close>

theorem initial_head_uniform_witness:
  "(0::int) < nlay \<and> 20 < nrow \<and> 99 < ncol \<and>
   strt_at (0, 20, 99) = Inr 100 \<and>
   (\<exists>w. ibound_at (0, 20, 99) = Inr w \<and> sint w = - 1) \<and>
   strt_at (0, 20, 30) = Inr 100"
  using initial_head_uniform [of 0 20 99] initial_head_uniform [of 0 20 30]
  by (simp add: nlay_def nrow_def ncol_def)

subsection \<open>The pumping well\<close>

text \<open>
  Claim C1. The well data has exactly the stress periods \<open>0\<close> and \<open>1\<close>. Each holds a
  list of one entry \<open>[layer, row, column, rate]\<close> for the same cell
  \<open>(0, r_well, c_well)\<close>; the rate of period \<open>0\<close> is \<open>-1000\<close>, which is not zero, and the
  rate of period \<open>1\<close> is zero.
\<close>

theorem stress_period_rates:
  "dom stress_period_data = {0, 1} \<and>
   stress_period_data 0 = Some [[0, r_well, c_well, - 1000]] \<and>
   stress_period_data 1 = Some [[0, r_well, c_well, 0]] \<and>
   length wel_sp1 = 1 \<and> length wel_sp2 = 1 \<and>
   wel_sp1 ! 0 ! 3 \<noteq> 0 \<and> wel_sp2 ! 0 ! 3 = 0 \<and>
   take 3 (wel_sp1 ! 0) = take 3 (wel_sp2 ! 0)"
  by (auto simp: stress_period_data_def wel_sp1_def wel_sp2_def)

text \<open>
  Claim C8. The well cell is \<open>r_well = round(nrow/2) = 25\<close>, \<open>c_well = round(ncol/2) = 50\<close>.
  Both indices are inside the grid, the column is neither the first nor the last one,
  and \<open>ibound\<close> holds \<open>1\<close> there: the well sits in an active cell, not on a
  constant-head column.
\<close>

theorem well_cell_active:
  "r_well = 25 \<and> c_well = 50 \<and>
   0 \<le> r_well \<and> r_well < nrow \<and> 0 \<le> c_well \<and> c_well < ncol \<and>
   c_well \<noteq> 0 \<and> c_well \<noteq> ncol - 1 \<and>
   (\<exists>w. ibound_at (0, r_well, c_well) = Inr w \<and> sint w = 1)"
proof -
  have "ibound_at (0, 25, 50) = Inr 1"
    using ibound_cell [of 0 25 50] by (simp add: nlay_def nrow_def ncol_def)
  then show ?thesis
    by (simp add: r_well_value c_well_value nrow_def ncol_def)
qed

subsection \<open>The time discretisation\<close>

text \<open>
  Claim C10. There are \<open>nper = 2\<close> stress periods; \<open>perlen\<close>, \<open>nstp\<close> and \<open>steady\<close>
  have one entry for each, and the keys of \<open>stress_period_data\<close> are exactly
  \<open>0, ..., nper - 1\<close>.
\<close>

theorem stress_period_consistency:
  "nper = 2 \<and>
   int (length perlen) = nper \<and> int (length nstp) = nper \<and> int (length steady) = nper \<and>
   dom stress_period_data = {0 .. nper - 1}"
  by (auto simp: nper_def perlen_def nstp_def steady_def stress_period_data_def)

section \<open>Properties of the control flow\<close>

subsection \<open>The solver is consulted once for each statement that runs it\<close>

lemma step_solver_cong:
  assumes "is_run s \<Longrightarrow> solver (solver_calls st) = solver' (solver_calls st)"
  shows "step solver s st = step solver' s st"
  using assms by (cases s) (auto simp: is_run_def Let_def split: list.splits option.splits)

lemma step_solver_calls:
  assumes "step solver s st = (st', None)"
  shows "solver_calls st' = solver_calls st + (if is_run s then 1 else 0)"
  using assms
  by (cases s) (auto simp: is_run_def Let_def split: list.splits option.splits if_splits)

lemma exec_solver_cong:
  assumes "\<And>i. i < length (filter is_run xs) \<Longrightarrow>
             solver (solver_calls st + i) = solver' (solver_calls st + i)"
  shows "exec solver xs st = exec solver' xs st"
  using assms
proof (induction xs arbitrary: st)
  case Nil
  show ?case by simp
next
  case (Cons s xs)
  have same: "step solver s st = step solver' s st"
  proof (rule step_solver_cong)
    assume "is_run s"
    then show "solver (solver_calls st) = solver' (solver_calls st)"
      using Cons.prems [of 0] by simp
  qed
  obtain st' r where st: "step solver' s st = (st', r)" by (cases "step solver' s st")
  show ?case
  proof (cases r)
    case (Some e)
    then show ?thesis using same st by simp
  next
    case None
    have calls: "solver_calls st' = solver_calls st + (if is_run s then 1 else 0)"
      using step_solver_calls st None by blast
    have "exec solver xs st' = exec solver' xs st'"
    proof (rule Cons.IH)
      fix i assume i: "i < length (filter is_run xs)"
      show "solver (solver_calls st' + i) = solver' (solver_calls st' + i)"
      proof (cases "is_run s")
        case True
        then show ?thesis using Cons.prems [of "Suc i"] i calls by simp
      next
        case False
        then show ?thesis using Cons.prems [of i] i calls by simp
      qed
    qed
    then show ?thesis using same st None by simp
  qed
qed

lemma script_one_run: "length (filter is_run script) = 1"
  by code_simp

lemma run_depends_on_first_call: "run solver = run (\<lambda>_. solver 0)"
  unfolding run_def
  by (rule exec_solver_cong) (simp add: script_one_run init_state_def)

lemma run_ok:
  "run (\<lambda>_. True) =
     (\<lparr>names = concat (map defs_of script),
       success = Some True, solver_calls = 1,
       trace = map (\<lambda>s. (line_of s, kind_of s)) script\<rparr>, Finished)"
  by code_simp

lemma run_fail:
  "run (\<lambda>_. False) =
     (\<lparr>names = concat (map defs_of (take 45 script)),
       success = Some False, solver_calls = 1,
       trace = map (\<lambda>s. (line_of s, kind_of s)) (take 45 script)\<rparr>,
      Raised (Exception ''MODFLOW did not terminate normally.''))"
  by code_simp

lemma run_eq:
  "run solver =
     (\<lparr>names = concat (map defs_of (executed solver)),
       success = Some (solver 0), solver_calls = 1,
       trace = map (\<lambda>s. (line_of s, kind_of s)) (executed solver)\<rparr>,
      if solver 0 then Finished
      else Raised (Exception ''MODFLOW did not terminate normally.''))"
proof (cases "solver 0")
  case True
  then have "run solver = run (\<lambda>_. True)" using run_depends_on_first_call [of solver] by simp
  then show ?thesis using True by (simp add: run_ok executed_def)
next
  case False
  then have "run solver = run (\<lambda>_. False)" using run_depends_on_first_call [of solver] by simp
  then show ?thesis using False by (simp add: run_fail executed_def)
qed

lemma trace_run:
  "trace (fst (run solver)) = map (\<lambda>s. (line_of s, kind_of s)) (executed solver)"
  by (simp add: run_eq)

lemma outcome_run:
  "snd (run solver) =
     (if solver 0 then Finished
      else Raised (Exception ''MODFLOW did not terminate normally.''))"
  by (simp add: run_eq)

lemma calls_run: "solver_calls (fst (run solver)) = 1"
  by (simp add: run_eq)

lemma success_run: "success (fst (run solver)) = Some (solver 0)"
  by (simp add: run_eq)

subsection \<open>The success check\<close>

text \<open>
  Claim C4. When the solver reports failure the script raises
  \<open>Exception('MODFLOW did not terminate normally.')\<close> at the conditional of line 82
  and stops there: nothing is read and nothing is plotted. When the solver reports
  success no exception is raised, and the run goes on with the imports of lines 86 and
  87 and the opening of the head file at line 90, up to the end of the script. The
  conditional is the only branch of the script.
\<close>

theorem solver_failure_raises:
  "(\<not> solver 0 \<longrightarrow>
      snd (run solver) = Raised (Exception ''MODFLOW did not terminate normally.'') \<and>
      last (trace (fst (run solver))) = (82, Check) \<and>
      filter (\<lambda>e. snd e = ReadHeads \<or> snd e = Plot) (trace (fst (run solver))) = []) \<and>
   (solver 0 \<longrightarrow>
      snd (run solver) = Finished \<and>
      take 4 (drop 44 (trace (fst (run solver)))) =
        [(82, Check), (86, Import), (87, Import), (90, ReadHeads)]) \<and>
   filter is_branch script =
     [IfNotSuccessRaise 82 (Exception ''MODFLOW did not terminate normally.'')]"
proof -
  let ?ev = "\<lambda>s. (line_of s, kind_of s)"
  have fail_last: "last (map ?ev (take 45 script)) = (82, Check)"
    by code_simp
  have fail_none:
    "filter (\<lambda>e. snd e = ReadHeads \<or> snd e = Plot) (map ?ev (take 45 script)) = []"
    by code_simp
  have ok_next:
    "take 4 (drop 44 (map ?ev script)) =
       [(82, Check), (86, Import), (87, Import), (90, ReadHeads)]"
    by code_simp
  have branch:
    "filter is_branch script =
       [IfNotSuccessRaise 82 (Exception ''MODFLOW did not terminate normally.'')]"
    by code_simp
  show ?thesis
    using fail_last fail_none ok_next branch
    by (simp add: trace_run outcome_run executed_def)
qed

text \<open>
  A solver that fails at its first call and would succeed at any later one, and a solver
  that succeeds at its first call.
\<close>

theorem solver_failure_raises_witness:
  "snd (run (\<lambda>n. 0 < n)) = Raised (Exception ''MODFLOW did not terminate normally.'') \<and>
   last (trace (fst (run (\<lambda>n. 0 < n)))) = (82, Check) \<and>
   snd (run (\<lambda>n. n = 0)) = Finished \<and>
   take 4 (drop 44 (trace (fst (run (\<lambda>n. n = 0))))) =
     [(82, Check), (86, Import), (87, Import), (90, ReadHeads)]"
  using solver_failure_raises [of "\<lambda>n. 0 < n"] solver_failure_raises [of "\<lambda>n. n = 0"]
  by simp

subsection \<open>The solver call\<close>

text \<open>
  The script has one \<open>run_model\<close> statement and no loop, so a run that gets to line 81
  makes that call once: the trace has one \<open>RunModel\<close> event and \<open>success\<close> is what
  the first call returned, even for a solver that would succeed at a second attempt.
  This is a fact about the statements of the script only. The model takes every flopy
  call to return; how long \<open>run_model\<close> waits for the solver process, whether the wait
  can be interrupted, and whether flopy raises before it starts the process at all, are
  matters of flopy and of time that the model does not describe.
\<close>

lemma run_model_statement_once:
  "solver_calls (fst (run solver)) = 1 \<and>
   length (filter (\<lambda>e. snd e = RunModel) (trace (fst (run solver)))) = 1 \<and>
   length (filter is_run script) = 1 \<and>
   success (fst (run solver)) = Some (solver 0)"
proof -
  let ?ev = "\<lambda>s. (line_of s, kind_of s)"
  have ok: "length (filter (\<lambda>e. snd e = RunModel) (map ?ev script)) = 1"
    by code_simp
  have fail: "length (filter (\<lambda>e. snd e = RunModel) (map ?ev (take 45 script))) = 1"
    by code_simp
  have "length (filter (\<lambda>e. snd e = RunModel) (trace (fst (run solver)))) = 1"
    using ok fail by (simp add: trace_run executed_def)
  then show ?thesis
    using calls_run success_run script_one_run by simp
qed

subsection \<open>The order of the steps\<close>

text \<open>
  The order in the specification's words does not hold of a successful run, nor of a
  failing one. The model object is constructed at line 21, before the grid parameters
  are defined from line 24 on; and the head file is read again at line 117, after the
  plot shown at line 113. The order fails already among the definitions and
  constructions that precede the solver, and again among the readings and plottings
  alone.
\<close>

theorem five_step_order_counterexample:
  "\<not> spec_five_step_order (trace (fst (run (\<lambda>_. True)))) \<and>
   \<not> spec_five_step_order (trace (fst (run (\<lambda>_. False)))) \<and>
   \<not> spec_five_step_order
       (filter (\<lambda>e. snd e = Define \<or> snd e = Construct)
          (take 44 (trace (fst (run (\<lambda>_. True)))))) \<and>
   \<not> spec_five_step_order
       (filter (\<lambda>e. snd e = ReadHeads \<or> snd e = Plot) (trace (fst (run (\<lambda>_. True))))) \<and>
   trace (fst (run (\<lambda>_. True))) ! 5 = (21, Construct) \<and>
   trace (fst (run (\<lambda>_. True))) ! 6 = (24, Define) \<and>
   trace (fst (run (\<lambda>_. True))) ! 58 = (113, Plot) \<and>
   trace (fst (run (\<lambda>_. True))) ! 60 = (117, ReadHeads)"
  by code_simp

text \<open>
  Claim C6, amended. The script runs as one straight line whose only branch is the
  success check: the lines executed are those of the script, each once and in rising
  order, up to line 82 when the solver fails and up to the end otherwise. Taken in
  blocks of equal kind, a run is: imports; the two names; the model object; the grid,
  boundary and time parameters; the packages dis, bas, lpf and pcg; the well parameters;
  the packages wel and oc; writing the input; the solver; the success check; and after
  a success: imports; reading the heads; the plot parameters; plotting; a definition;
  reading the time series; plotting; the title; plotting. So writing follows every
  construction, the solver follows the writing, the check follows the solver, and every
  reading and plotting follows the check, while definitions and constructions
  interleave and reading and plotting alternate.
\<close>

theorem script_block_order:
  "map fst (trace (fst (run solver))) = map line_of (executed solver) \<and>
   sorted_wrt (<) (map fst (trace (fst (run solver)))) \<and>
   remdups_adj (map snd (trace (fst (run solver)))) =
     (if solver 0
      then [Import, Define, Construct, Define, Construct, Define, Construct,
            WriteInput, RunModel, Check,
            Import, ReadHeads, Define, Plot, Define, ReadHeads, Plot, Define, Plot]
      else [Import, Define, Construct, Define, Construct, Define, Construct,
            WriteInput, RunModel, Check])"
proof -
  let ?ev = "\<lambda>s. (line_of s, kind_of s)"
  have lines: "map fst (map ?ev xs) = map line_of xs" for xs
    by simp
  have ok_sorted: "sorted_wrt (<) (map line_of script)"
    by code_simp
  have fail_sorted: "sorted_wrt (<) (map line_of (take 45 script))"
    by code_simp
  have ok_blocks:
    "remdups_adj (map snd (map ?ev script)) =
       [Import, Define, Construct, Define, Construct, Define, Construct,
        WriteInput, RunModel, Check,
        Import, ReadHeads, Define, Plot, Define, ReadHeads, Plot, Define, Plot]"
    by code_simp
  have fail_blocks:
    "remdups_adj (map snd (map ?ev (take 45 script))) =
       [Import, Define, Construct, Define, Construct, Define, Construct,
        WriteInput, RunModel, Check]"
    by code_simp
  show ?thesis
    unfolding trace_run lines
    using ok_sorted fail_sorted ok_blocks fail_blocks
    by (simp add: executed_def)
qed

end
